theory Spec2Isabelle
  imports Complex_Main "HOL-Library.Multiset" "HOL-Library.Sublist"
begin

section \<open>Python values used by \<open>app.py\<close>\<close>

text \<open>
  A Python \<open>float\<close> is an IEEE binary64 value. A finite value is kept as the rational
  number it denotes (\<open>Num 0\<close> is \<open>+0.0\<close>), and the negative zero, the two infinities and
  NaN are constructors of their own.
\<close>

datatype pyfloat = Num rat | NegZero | PInf | NInf | NaN

text \<open>
  The exceptions the analysed code can meet; all four are subclasses of \<open>Exception\<close>. The
  first three arise inside the evaluation, \<open>OverflowError\<close> when an integer is handed to
  SQLite.
\<close>

datatype exn = TypeError | ValueError | ZeroDivisionError | OverflowError

text \<open>
  The library functions the route calls and that are no part of the repository: the string
  parsers behind \<open>float(s)\<close> and \<open>int(s)\<close> (\<open>None\<close> stands for their \<open>ValueError\<close>), the
  rounding of an exact nonzero arithmetic result to binary64, and the formatting
  \<open>f"{x:.1f}"\<close>. The model takes them as a parameter, so every theorem below holds
  whatever these functions compute.
\<close>

record builtins =
  float_of_str :: "string \<Rightarrow> pyfloat option"
  int_of_str :: "string \<Rightarrow> int option"
  round_binary64 :: "rat \<Rightarrow> pyfloat"
  format_1f :: "pyfloat \<Rightarrow> string"

definition py_float :: "builtins \<Rightarrow> string option \<Rightarrow> exn + pyfloat" where
  \<comment> \<open>\<open>float(x)\<close> for \<open>x\<close> a string or \<open>None\<close>\<close>
  "py_float E x =
     (case x of
        None \<Rightarrow> Inl TypeError
      | Some s \<Rightarrow> (case float_of_str E s of None \<Rightarrow> Inl ValueError | Some v \<Rightarrow> Inr v))"

definition py_int :: "builtins \<Rightarrow> string option \<Rightarrow> exn + int" where
  \<comment> \<open>\<open>int(x)\<close> for \<open>x\<close> a string or \<open>None\<close>\<close>
  "py_int E x =
     (case x of
        None \<Rightarrow> Inl TypeError
      | Some s \<Rightarrow> (case int_of_str E s of None \<Rightarrow> Inl ValueError | Some v \<Rightarrow> Inr v))"

subsection \<open>Comparison and arithmetic of floats\<close>

fun is_zero :: "pyfloat \<Rightarrow> bool" where
  "is_zero (Num q) = (q = 0)"
| "is_zero NegZero = True"
| "is_zero _ = False"

fun is_inf :: "pyfloat \<Rightarrow> bool" where
  "is_inf PInf = True"
| "is_inf NInf = True"
| "is_inf _ = False"

fun sign_bit :: "pyfloat \<Rightarrow> bool" where
  "sign_bit (Num q) = (q < 0)"
| "sign_bit NegZero = True"
| "sign_bit NInf = True"
| "sign_bit _ = False"

fun rat_of_float :: "pyfloat \<Rightarrow> rat" where
  "rat_of_float (Num q) = q"
| "rat_of_float _ = 0"

definition signed_zero :: "bool \<Rightarrow> pyfloat" where
  "signed_zero neg = (if neg then NegZero else Num 0)"

definition signed_inf :: "bool \<Rightarrow> pyfloat" where
  "signed_inf neg = (if neg then NInf else PInf)"

fun float_lt :: "pyfloat \<Rightarrow> pyfloat \<Rightarrow> bool" where
  \<comment> \<open>\<open>x < y\<close>: false as soon as one side is NaN; the two zeros are equal\<close>
  "float_lt NaN _ = False"
| "float_lt _ NaN = False"
| "float_lt PInf _ = False"
| "float_lt _ NInf = False"
| "float_lt NInf _ = True"
| "float_lt _ PInf = True"
| "float_lt x y = (rat_of_float x < rat_of_float y)"

definition float_gt :: "pyfloat \<Rightarrow> pyfloat \<Rightarrow> bool" where
  "float_gt x y = float_lt y x"

definition float_mul :: "builtins \<Rightarrow> pyfloat \<Rightarrow> pyfloat \<Rightarrow> pyfloat" where
  "float_mul E x y =
     (if x = NaN \<or> y = NaN then NaN
      else if is_inf x \<or> is_inf y then
        (if is_zero x \<or> is_zero y then NaN else signed_inf (sign_bit x \<noteq> sign_bit y))
      else if is_zero x \<or> is_zero y then signed_zero (sign_bit x \<noteq> sign_bit y)
      else round_binary64 E (rat_of_float x * rat_of_float y))"

definition float_div :: "builtins \<Rightarrow> pyfloat \<Rightarrow> pyfloat \<Rightarrow> exn + pyfloat" where
  \<comment> \<open>Python tests the divisor first: \<open>x / 0.0\<close> raises for every \<open>x\<close>, NaN included\<close>
  "float_div E x y =
     (if is_zero y then Inl ZeroDivisionError
      else if x = NaN \<or> y = NaN then Inr NaN
      else if is_inf x then
        (if is_inf y then Inr NaN else Inr (signed_inf (sign_bit x \<noteq> sign_bit y)))
      else if is_inf y \<or> is_zero x then Inr (signed_zero (sign_bit x \<noteq> sign_bit y))
      else Inr (round_binary64 E (rat_of_float x / rat_of_float y)))"

subsection \<open>Strings and dictionaries\<close>

fun startswith :: "string \<Rightarrow> string \<Rightarrow> bool" where
  \<comment> \<open>\<open>s.startswith(p)\<close>\<close>
  "startswith s [] = True"
| "startswith [] (c # p) = False"
| "startswith (d # s) (c # p) = (d = c \<and> startswith s p)"

fun contains :: "string \<Rightarrow> string \<Rightarrow> bool" where
  \<comment> \<open>\<open>p in s\<close>\<close>
  "contains [] p = (p = [])"
| "contains (d # s) p = (startswith (d # s) p \<or> contains s p)"

text \<open>
  A \<open>dict\<close> keeps its keys in insertion order: it is an association list, and
  \<open>d[k] = v\<close> replaces the value of a key already there and appends a new key.
\<close>

fun dict_set :: "'k \<Rightarrow> 'v \<Rightarrow> ('k \<times> 'v) list \<Rightarrow> ('k \<times> 'v) list" where
  "dict_set k v [] = [(k, v)]"
| "dict_set k v ((k', v') # d) = (if k' = k then (k, v) # d else (k', v') # dict_set k v d)"

definition dict_values :: "('k \<times> 'v) list \<Rightarrow> 'v list" where
  "dict_values d = map snd d"

section \<open>The analyzer route \<open>index\<close>\<close>

text \<open>
  The seven raw form values, each read as \<open>request.form.get(name) or None\<close>: a field that
  is missing and a field that is the empty string are both \<open>None\<close>.
\<close>

record raw_input =
  hb_raw :: "string option"
  sugar_raw :: "string option"
  bp_sys_raw :: "string option"
  bp_dia_raw :: "string option"
  chol_raw :: "string option"
  height_raw :: "string option"
  weight_raw :: "string option"

definition get_or_none :: "(string \<rightharpoonup> string) \<Rightarrow> string \<Rightarrow> string option" where
  "get_or_none form k = (case form k of None \<Rightarrow> None | Some s \<Rightarrow> if s = [] then None else Some s)"

definition read_form :: "(string \<rightharpoonup> string) \<Rightarrow> raw_input" where
  "read_form form =
     \<lparr> hb_raw = get_or_none form ''hb'',
       sugar_raw = get_or_none form ''sugar'',
       bp_sys_raw = get_or_none form ''bp_sys'',
       bp_dia_raw = get_or_none form ''bp_dia'',
       chol_raw = get_or_none form ''chol'',
       height_raw = get_or_none form ''height'',
       weight_raw = get_or_none form ''weight'' \<rparr>"

text \<open>
  The local variables of \<open>index\<close> that the evaluation assigns. A numeric local is \<open>None\<close>
  when the code has set it to \<open>None\<close>; \<open>result\<close> maps a metric's name to its status and
  its advisory text.
\<close>

record locals =
  result :: "(string \<times> string \<times> string) list"
  overall_summary :: "(string \<times> string) option"
  bmi_value :: "pyfloat option"
  hb :: "pyfloat option"
  sugar :: "pyfloat option"
  bp_sys :: "int option"
  bp_dia :: "int option"
  chol :: "pyfloat option"
  height_cm :: "pyfloat option"
  weight_kg :: "pyfloat option"

definition initial_locals :: locals where
  "initial_locals =
     \<lparr> result = [], overall_summary = None, bmi_value = None, hb = None, sugar = None,
       bp_sys = None, bp_dia = None, chol = None, height_cm = None, weight_kg = None \<rparr>"

text \<open>
  A statement runs on the locals and either completes or raises; the assignments made
  before a \<open>raise\<close> stay. \<open>try_except\<close> is \<open>try: body except Exception: handler\<close>: every
  exception of \<open>exn\<close> is an \<open>Exception\<close>, so the handler runs for each of them.
\<close>

type_synonym stmt = "locals \<Rightarrow> exn option \<times> locals"

definition try_except :: "stmt \<Rightarrow> (locals \<Rightarrow> locals) \<Rightarrow> stmt" where
  "try_except body handler s =
     (case body s of (None, s') \<Rightarrow> (None, s') | (Some e, s') \<Rightarrow> (None, handler s'))"

definition seq :: "stmt \<Rightarrow> stmt \<Rightarrow> stmt" where
  "seq f g s = (case f s of (None, s') \<Rightarrow> g s' | (Some e, s') \<Rightarrow> (Some e, s'))"

definition set_result :: "string \<Rightarrow> string \<times> string \<Rightarrow> locals \<Rightarrow> locals" where
  \<comment> \<open>\<open>result[name] = (status, text)\<close>\<close>
  "set_result name v s = s\<lparr>result := dict_set name v (result s)\<rparr>"

subsection \<open>1) Hemoglobin\<close>

definition hemoglobin_status :: "pyfloat \<Rightarrow> string \<times> string" where
  \<comment> \<open>the \<open>if\<close>/\<open>elif\<close>/\<open>else\<close> of the \<open>try\<close> body\<close>
  "hemoglobin_status v =
     (if float_lt v (Num 12) then
        (''Low'', ''Hemoglobin appears lower than the normal range. Consult a doctor if symptoms persist.'')
      else if float_gt v (Num 16) then
        (''High'', ''Hemoglobin appears higher than the normal range. A medical check-up is recommended.'')
      else (''Normal'', ''Hemoglobin is within the normal range.''))"

definition hemoglobin_try :: "builtins \<Rightarrow> raw_input \<Rightarrow> stmt" where
  "hemoglobin_try E r s =
     (case py_float E (hb_raw r) of
        Inl e \<Rightarrow> (Some e, s)
      | Inr v \<Rightarrow> (None, set_result ''Hemoglobin'' (hemoglobin_status v) (s\<lparr>hb := Some v\<rparr>)))"

definition hemoglobin_except :: "locals \<Rightarrow> locals" where
  "hemoglobin_except s =
     set_result ''Hemoglobin'' (''Error'', ''Please enter a valid Hemoglobin value.'') (s\<lparr>hb := None\<rparr>)"

definition hemoglobin_block :: "builtins \<Rightarrow> raw_input \<Rightarrow> stmt" where
  "hemoglobin_block E r = try_except (hemoglobin_try E r) hemoglobin_except"

subsection \<open>2) Fasting sugar\<close>

definition sugar_status :: "pyfloat \<Rightarrow> string \<times> string" where
  "sugar_status v =
     (if float_lt v (Num 70) then
        (''Low'', ''Low fasting sugar may cause dizziness or weakness.'')
      else if float_gt v (Num 125) then
        (''High'', ''Fasting sugar appears high and may indicate diabetes. Consult a doctor.'')
      else (''Normal'', ''Fasting sugar is within the normal range.''))"

definition sugar_try :: "builtins \<Rightarrow> raw_input \<Rightarrow> stmt" where
  "sugar_try E r s =
     (case py_float E (sugar_raw r) of
        Inl e \<Rightarrow> (Some e, s)
      | Inr v \<Rightarrow> (None, set_result ''Fasting Sugar'' (sugar_status v) (s\<lparr>sugar := Some v\<rparr>)))"

definition sugar_except :: "locals \<Rightarrow> locals" where
  "sugar_except s =
     set_result ''Fasting Sugar'' (''Error'', ''Please enter a valid sugar value.'') (s\<lparr>sugar := None\<rparr>)"

definition sugar_block :: "builtins \<Rightarrow> raw_input \<Rightarrow> stmt" where
  "sugar_block E r = try_except (sugar_try E r) sugar_except"

subsection \<open>3) Blood pressure\<close>

definition bp_status :: "int \<Rightarrow> int \<Rightarrow> string \<times> string" where
  "bp_status sy di =
     (if sy < 90 \<or> di < 60 then
        (''Low'', ''Blood pressure is low. Hydration and rest may help.'')
      else if sy > 140 \<or> di > 90 then
        (''High'', ''Blood pressure is high and may pose risks. A medical consultation is recommended.'')
      else (''Normal'', ''Blood pressure is within the normal range.''))"

definition bp_try :: "builtins \<Rightarrow> raw_input \<Rightarrow> stmt" where
  "bp_try E r s =
     (case py_int E (bp_sys_raw r) of
        Inl e \<Rightarrow> (Some e, s)
      | Inr sy \<Rightarrow>
          let s1 = s\<lparr>bp_sys := Some sy\<rparr> in
          (case py_int E (bp_dia_raw r) of
             Inl e \<Rightarrow> (Some e, s1)
           | Inr di \<Rightarrow>
               (None, set_result ''Blood Pressure'' (bp_status sy di) (s1\<lparr>bp_dia := Some di\<rparr>))))"

definition bp_except :: "locals \<Rightarrow> locals" where
  "bp_except s =
     set_result ''Blood Pressure'' (''Error'', ''Please enter valid BP values.'')
       (s\<lparr>bp_sys := None, bp_dia := None\<rparr>)"

definition bp_block :: "builtins \<Rightarrow> raw_input \<Rightarrow> stmt" where
  "bp_block E r = try_except (bp_try E r) bp_except"

subsection \<open>4) Cholesterol\<close>

definition chol_status :: "pyfloat \<Rightarrow> string \<times> string" where
  "chol_status v =
     (if float_gt v (Num 240) then
        (''High'', ''Cholesterol is high and may increase heart disease risk.'')
      else if float_gt v (Num 200) then
        (''Borderline'', ''Cholesterol is borderline high. Healthy diet and lifestyle changes may help.'')
      else (''Normal'', ''Cholesterol is within a healthy range.''))"

definition chol_try :: "builtins \<Rightarrow> raw_input \<Rightarrow> stmt" where
  "chol_try E r s =
     (case py_float E (chol_raw r) of
        Inl e \<Rightarrow> (Some e, s)
      | Inr v \<Rightarrow> (None, set_result ''Cholesterol'' (chol_status v) (s\<lparr>chol := Some v\<rparr>)))"

definition chol_except :: "locals \<Rightarrow> locals" where
  "chol_except s =
     set_result ''Cholesterol'' (''Error'', ''Please enter a valid cholesterol value.'') (s\<lparr>chol := None\<rparr>)"

definition chol_block :: "builtins \<Rightarrow> raw_input \<Rightarrow> stmt" where
  "chol_block E r = try_except (chol_try E r) chol_except"

subsection \<open>5) BMI\<close>

text \<open>
  The literal \<open>18.5\<close> is a binary64 value; \<open>24.9\<close> is not, and the literal denotes the
  nearest one, \<open>3504363460047667 / 2^47\<close>.
\<close>

definition lit_24_9 :: pyfloat where
  "lit_24_9 = Num (3504363460047667 / 140737488355328)"

definition compute_bmi :: "builtins \<Rightarrow> pyfloat \<Rightarrow> pyfloat \<Rightarrow> exn + pyfloat" where
  \<comment> \<open>\<open>height_m = height_cm / 100.0\<close>, then \<open>weight_kg / (height_m * height_m)\<close>\<close>
  "compute_bmi E h w =
     (case float_div E h (Num 100) of
        Inl e \<Rightarrow> Inl e
      | Inr height_m \<Rightarrow> float_div E w (float_mul E height_m height_m))"

definition bmi_status :: "builtins \<Rightarrow> pyfloat \<Rightarrow> string \<times> string" where
  "bmi_status E b =
     (if float_lt b (Num (37 / 2)) then
        (format_1f E b @ '' (Underweight)'',
         ''BMI indicates underweight. A balanced nutritious diet is recommended.'')
      else if float_gt b lit_24_9 then
        (format_1f E b @ '' (Overweight)'',
         ''BMI indicates overweight. Regular exercise and diet control are advised.'')
      else (format_1f E b @ '' (Normal)'', ''BMI is within normal limits.''))"

definition bmi_try :: "builtins \<Rightarrow> raw_input \<Rightarrow> stmt" where
  "bmi_try E r s =
     (case py_float E (height_raw r) of
        Inl e \<Rightarrow> (Some e, s)
      | Inr h \<Rightarrow>
          let s1 = s\<lparr>height_cm := Some h\<rparr> in
          (case py_float E (weight_raw r) of
             Inl e \<Rightarrow> (Some e, s1)
           | Inr w \<Rightarrow>
               let s2 = s1\<lparr>weight_kg := Some w\<rparr> in
               (case compute_bmi E h w of
                  Inl e \<Rightarrow> (Some e, s2)
                | Inr b \<Rightarrow> (None, set_result ''BMI'' (bmi_status E b) (s2\<lparr>bmi_value := Some b\<rparr>)))))"

definition bmi_except :: "locals \<Rightarrow> locals" where
  "bmi_except s =
     set_result ''BMI'' (''Error'', ''Please enter valid height and weight.'')
       (s\<lparr>height_cm := None, weight_kg := None\<rparr>)"

definition bmi_block :: "builtins \<Rightarrow> raw_input \<Rightarrow> stmt" where
  "bmi_block E r = try_except (bmi_try E r) bmi_except"

subsection \<open>Overall summary\<close>

fun py_any :: "bool list \<Rightarrow> bool" where
  "py_any [] = False"
| "py_any (b # bs) = (if b then True else py_any bs)"

definition is_abnormal :: "string \<Rightarrow> bool" where
  \<comment> \<open>the condition of the counting loop\<close>
  "is_abnormal s =
     (startswith s ''High'' \<or> startswith s ''Low'' \<or> contains s ''Underweight''
      \<or> contains s ''Overweight'' \<or> s = ''Borderline'')"

fun count_loop :: "string list \<Rightarrow> nat \<Rightarrow> nat" where
  \<comment> \<open>\<open>for s in statuses: if ...: abnormal_count += 1\<close>, from the count so far\<close>
  "count_loop [] abnormal_count = abnormal_count"
| "count_loop (s # statuses) abnormal_count =
     count_loop statuses (if is_abnormal s then abnormal_count + 1 else abnormal_count)"

definition summarize :: "string list \<Rightarrow> string \<times> string" where
  \<comment> \<open>the body of \<open>if result:\<close>, from the list \<open>statuses\<close>\<close>
  "summarize statuses =
     (if py_any (map (\<lambda>s. s = ''Error'' \<or> startswith s ''Error'') statuses) then
        (''Data Issue'',
         ''Some inputs were invalid. Please correct the highlighted fields and try again.'')
      else
        let abnormal_count = count_loop statuses 0 in
        if abnormal_count = 0 then
          (''Stable / Normal'',
           ''All tracked parameters appear within normal ranges. Maintain your current lifestyle and regular check-ups.'')
        else if abnormal_count = 1 then
          (''Mild Concern'',
           ''One parameter needs attention. Monitor your health and consider lifestyle adjustments.'')
        else if 2 \<le> abnormal_count \<and> abnormal_count \<le> 3 then
          (''Needs Attention'',
           ''Multiple parameters are outside the normal range. A detailed check-up and lifestyle review are recommended.'')
        else
          (''High Risk'',
           ''Several parameters are abnormal. Please consult a doctor for a complete evaluation.''))"

definition overall :: "locals \<Rightarrow> locals" where
  "overall s =
     (if result s \<noteq> [] then
        s\<lparr>overall_summary := Some (summarize (map fst (dict_values (result s))))\<rparr>
      else s)"

subsection \<open>The evaluation: the five metrics, then the summary\<close>

definition evaluate :: "builtins \<Rightarrow> raw_input \<Rightarrow> exn option \<times> locals" where
  "evaluate E r =
     seq (hemoglobin_block E r)
      (seq (sugar_block E r)
        (seq (bp_block E r)
          (seq (chol_block E r)
            (seq (bmi_block E r)
              (\<lambda>s. (None, overall s))))))
       initial_locals"

section \<open>The table \<open>reports\<close>\<close>

text \<open>
  A row of \<open>reports\<close>; a column is \<open>None\<close> for SQL \<open>NULL\<close>. The table is the list of its rows
  in insertion order, with the counter that \<open>AUTOINCREMENT\<close> keeps.
\<close>

record report =
  id_col :: int
  created_at_col :: string
  hb_col :: "pyfloat option"
  sugar_col :: "pyfloat option"
  bp_sys_col :: int
  bp_dia_col :: int
  chol_col :: "pyfloat option"
  height_cm_col :: "pyfloat option"
  weight_kg_col :: "pyfloat option"
  bmi_col :: "pyfloat option"
  user_id_col :: "int option"

record database =
  reports :: "report list"
  reports_seq :: int

text \<open>
  How the \<open>sqlite3\<close> module binds the parameters of a statement. A Python integer must fit
  SQLite's signed 64-bit \<open>INTEGER\<close>, or the call raises \<open>OverflowError\<close> before anything is
  written. A float goes into a \<open>REAL\<close> column, where SQLite keeps NaN as \<open>NULL\<close> and the
  negative zero as \<open>0.0\<close>.
\<close>

definition int64 :: "int \<Rightarrow> bool" where
  "int64 n = (- (2 ^ 63) \<le> n \<and> n < 2 ^ 63)"

definition bind_ints :: "int list \<Rightarrow> exn option" where
  "bind_ints ns = (if list_all int64 ns then None else Some OverflowError)"

fun sql_real :: "pyfloat \<Rightarrow> pyfloat option" where
  "sql_real NaN = None"
| "sql_real NegZero = Some (Num 0)"
| "sql_real v = Some v"

definition save_report ::
  "string \<Rightarrow> pyfloat \<Rightarrow> pyfloat \<Rightarrow> int \<Rightarrow> int \<Rightarrow> pyfloat \<Rightarrow> pyfloat \<Rightarrow> pyfloat \<Rightarrow> pyfloat
     \<Rightarrow> int option \<Rightarrow> database \<Rightarrow> exn option \<times> database" where
  \<comment> \<open>\<open>now\<close> is the text of \<open>datetime.now().strftime(...)\<close>; when \<open>execute\<close> raises, nothing
      was committed and the table is as before\<close>
  "save_report now h su bs bd c hc wk b user_id db =
     (case bind_ints ([bs, bd] @ (case user_id of None \<Rightarrow> [] | Some u \<Rightarrow> [u])) of
        Some e \<Rightarrow> (Some e, db)
      | None \<Rightarrow>
          (None,
           \<lparr> reports = reports db @
               [\<lparr> id_col = reports_seq db + 1, created_at_col = now, hb_col = sql_real h,
                  sugar_col = sql_real su, bp_sys_col = bs, bp_dia_col = bd, chol_col = sql_real c,
                  height_cm_col = sql_real hc, weight_kg_col = sql_real wk, bmi_col = sql_real b,
                  user_id_col = user_id \<rparr>],
             reports_seq = reports_seq db + 1 \<rparr>))"




section \<open>Session, request and the routes\<close>

record session =
  session_user_id :: "int option"
  session_user_name :: "string option"


record request =
  http_method :: string
  form :: "string \<rightharpoonup> string"

text \<open>The four values handed to \<open>render_template("index.html", ...)\<close>.\<close>

record page =
  page_result :: "(string \<times> string \<times> string) list"
  page_overall_summary :: "(string \<times> string) option"
  page_user_name :: "string option"
  page_user_id :: "int option"

definition all_valid :: "locals \<Rightarrow> bool" where
  \<comment> \<open>\<open>all(v is not None for v in [hb, sugar, bp_sys, bp_dia, chol, height_cm, weight_kg, bmi_value])\<close>\<close>
  "all_valid s =
     list_all (\<lambda>b. b)
       [hb s \<noteq> None, sugar s \<noteq> None, bp_sys s \<noteq> None, bp_dia s \<noteq> None, chol s \<noteq> None,
        height_cm s \<noteq> None, weight_kg s \<noteq> None, bmi_value s \<noteq> None]"

definition save_if_valid ::
  "string \<Rightarrow> int option \<Rightarrow> locals \<Rightarrow> database \<Rightarrow> exn option \<times> database" where
  \<comment> \<open>the \<open>if all(...)\<close> around the call of \<open>save_report\<close>, which stands outside every \<open>try\<close>\<close>
  "save_if_valid now user_id s db =
     (if all_valid s then
        save_report now (the (hb s)) (the (sugar s)) (the (bp_sys s)) (the (bp_dia s))
          (the (chol s)) (the (height_cm s)) (the (weight_kg s)) (the (bmi_value s)) user_id db
      else (None, db))"

definition render :: "session \<Rightarrow> locals \<Rightarrow> page" where
  "render ses s =
     \<lparr> page_result = result s, page_overall_summary = overall_summary s,
       page_user_name = session_user_name ses, page_user_id = session_user_id ses \<rparr>"

definition index :: "builtins \<Rightarrow> string \<Rightarrow> session \<Rightarrow> request \<Rightarrow> database \<Rightarrow> exn + database \<times> page" where
  \<comment> \<open>the database afterwards and the page, or the exception that leaves the route\<close>
  "index E now ses req db =
     (if http_method req = ''POST'' then
        (case evaluate E (read_form (form req)) of
           (Some e, s) \<Rightarrow> Inl e
         | (None, s) \<Rightarrow>
             (case save_if_valid now (session_user_id ses) s db of
                (Some e, db') \<Rightarrow> Inl e
              | (None, db') \<Rightarrow> Inr (db', render ses s)))
      else Inr (db, render ses initial_locals))"



section \<open>Notions used to state the properties\<close>

text \<open>
  What the \<open>try\<close> body of the two blocks with several inputs reaches: the two pressures, or
  height, weight and BMI, or the exception that stops it.
\<close>

definition bp_outcome :: "builtins \<Rightarrow> raw_input \<Rightarrow> exn + int \<times> int" where
  "bp_outcome E r =
     (case py_int E (bp_sys_raw r) of
        Inl e \<Rightarrow> Inl e
      | Inr sy \<Rightarrow> (case py_int E (bp_dia_raw r) of Inl e \<Rightarrow> Inl e | Inr di \<Rightarrow> Inr (sy, di)))"

definition bmi_outcome :: "builtins \<Rightarrow> raw_input \<Rightarrow> exn + pyfloat \<times> pyfloat \<times> pyfloat" where
  "bmi_outcome E r =
     (case py_float E (height_raw r) of
        Inl e \<Rightarrow> Inl e
      | Inr h \<Rightarrow>
          (case py_float E (weight_raw r) of
             Inl e \<Rightarrow> Inl e
           | Inr w \<Rightarrow> (case compute_bmi E h w of Inl e \<Rightarrow> Inl e | Inr b \<Rightarrow> Inr (h, w, b))))"

definition status_of :: "locals \<Rightarrow> string \<Rightarrow> string option" where
  \<comment> \<open>\<open>result[name][0]\<close>, or \<open>None\<close> when \<open>name\<close> is no key of \<open>result\<close>\<close>
  "status_of s name = map_option fst (map_of (result s) name)"

fun float_le :: "pyfloat \<Rightarrow> pyfloat \<Rightarrow> bool" where
  \<comment> \<open>\<open>x <= y\<close> on floats, to state thresholds; the code itself only uses \<open><\<close> and \<open>>\<close>\<close>
  "float_le NaN _ = False"
| "float_le _ NaN = False"
| "float_le NInf _ = True"
| "float_le _ PInf = True"
| "float_le PInf _ = False"
| "float_le _ NInf = False"
| "float_le x y = (rat_of_float x \<le> rat_of_float y)"

definition statuses_of :: "locals \<Rightarrow> string list" where
  \<comment> \<open>the statuses of the classifications, in the order of \<open>result\<close>\<close>
  "statuses_of s = map (\<lambda>(name, status, advice). status) (result s)"

subsection \<open>The rollup as the specification words it\<close>

text \<open>
  The reference rollup of the specification, on the multiset of the statuses: it is
  written from the specification's sentences, not from the code, and the order of the
  classifications cannot matter to it.
\<close>

definition spec_is_error :: "string \<Rightarrow> bool" where
  "spec_is_error st = (st = ''Error'' \<or> prefix ''Error'' st)"

definition spec_is_abnormal :: "string \<Rightarrow> bool" where
  "spec_is_abnormal st =
     (prefix ''High'' st \<or> prefix ''Low'' st \<or> sublist ''Underweight'' st
      \<or> sublist ''Overweight'' st \<or> st = ''Borderline'')"

definition spec_rollup :: "string multiset \<Rightarrow> string" where
  "spec_rollup M =
     (if \<exists>st \<in># M. spec_is_error st then ''Data Issue''
      else
        let n = size (filter_mset spec_is_abnormal M) in
        if n = 0 then ''Stable / Normal''
        else if n = 1 then ''Mild Concern''
        else if n = 2 \<or> n = 3 then ''Needs Attention''
        else ''High Risk'')"

subsection \<open>An instance of the library functions\<close>

text \<open>
  To run the model on concrete forms: \<open>sample_builtins\<close> reads an unsigned decimal numeral
  as Python does and rejects every other string (Python accepts more), prints with one
  decimal, rounding half to even, and keeps arithmetic exact, which is binary64 arithmetic
  wherever the exact result is a binary64 value, as it is on the forms used below.
\<close>

fun position :: "char \<Rightarrow> string \<Rightarrow> nat \<Rightarrow> nat option" where
  \<comment> \<open>where \<open>c\<close> stands in a string, counted from \<open>k\<close>\<close>
  "position c [] k = None"
| "position c (d # ds) k = (if c = d then Some k else position c ds (k + 1))"

definition digit_value :: "char \<Rightarrow> nat option" where
  "digit_value c = position c ''0123456789'' 0"

fun digits_value :: "string \<Rightarrow> nat \<Rightarrow> nat option" where
  "digits_value [] n = Some n"
| "digits_value (c # cs) n =
     (case digit_value c of None \<Rightarrow> None | Some d \<Rightarrow> digits_value cs (10 * n + d))"

definition decimal :: "string \<Rightarrow> nat option" where
  "decimal s = (if s = [] then None else digits_value s 0)"

definition digit_char :: "nat \<Rightarrow> char" where
  "digit_char d = ''0123456789'' ! d"

fun show_nat :: "nat \<Rightarrow> string" where
  "show_nat n = (if n < 10 then [digit_char n] else show_nat (n div 10) @ [digit_char (n mod 10)])"

declare show_nat.simps [simp del]

definition round_half_even :: "rat \<Rightarrow> int" where
  "round_half_even q =
     (let f = \<lfloor>q\<rfloor>; d = q - of_int f
      in if d < 1 / 2 then f else if 1 / 2 < d then f + 1 else if even f then f else f + 1)"

fun sample_format_1f :: "pyfloat \<Rightarrow> string" where
  "sample_format_1f (Num q) =
     (let n = nat (round_half_even (\<bar>q\<bar> * 10))
      in (if q < 0 then ''-'' else []) @ show_nat (n div 10) @ ''.'' @ show_nat (n mod 10))"
| "sample_format_1f NegZero = ''-0.0''"
| "sample_format_1f PInf = ''inf''"
| "sample_format_1f NInf = ''-inf''"
| "sample_format_1f NaN = ''nan''"

definition sample_builtins :: builtins where
  "sample_builtins =
     \<lparr> float_of_str = (\<lambda>s. map_option (\<lambda>n. Num (of_nat n)) (decimal s)),
       int_of_str = (\<lambda>s. map_option int (decimal s)),
       round_binary64 = Num,
       format_1f = sample_format_1f \<rparr>"

definition sample_raw :: raw_input where
  "sample_raw =
     \<lparr> hb_raw = Some ''14'', sugar_raw = Some ''100'', bp_sys_raw = Some ''120'',
       bp_dia_raw = Some ''80'', chol_raw = Some ''180'', height_raw = Some ''200'',
       weight_raw = Some ''88'' \<rparr>"

definition sample_form :: "string \<rightharpoonup> string" where
  "sample_form =
     [''hb'' \<mapsto> ''14'', ''sugar'' \<mapsto> ''100'', ''bp_sys'' \<mapsto> ''120'', ''bp_dia'' \<mapsto> ''80'',
      ''chol'' \<mapsto> ''180'', ''height'' \<mapsto> ''200'', ''weight'' \<mapsto> ''88'']"


definition empty_db :: database where
  "empty_db = \<lparr> reports = [], reports_seq = 0 \<rparr>"

definition guest :: session where
  "guest = \<lparr> session_user_id = None, session_user_name = None \<rparr>"




subsection \<open>The locals after the five blocks\<close>

text \<open>The state in which the summary is computed, written out; \<open>evaluate_eq\<close> proves it.\<close>

definition five_metrics :: "builtins \<Rightarrow> raw_input \<Rightarrow> locals" where
  "five_metrics E r =
       \<lparr> result =
           [(''Hemoglobin'', case py_float E (hb_raw r) of
                Inl e \<Rightarrow> (''Error'', ''Please enter a valid Hemoglobin value.'')
              | Inr v \<Rightarrow> hemoglobin_status v),
            (''Fasting Sugar'', case py_float E (sugar_raw r) of
                Inl e \<Rightarrow> (''Error'', ''Please enter a valid sugar value.'')
              | Inr v \<Rightarrow> sugar_status v),
            (''Blood Pressure'', case bp_outcome E r of
                Inl e \<Rightarrow> (''Error'', ''Please enter valid BP values.'')
              | Inr (sy, di) \<Rightarrow> bp_status sy di),
            (''Cholesterol'', case py_float E (chol_raw r) of
                Inl e \<Rightarrow> (''Error'', ''Please enter a valid cholesterol value.'')
              | Inr v \<Rightarrow> chol_status v),
            (''BMI'', case bmi_outcome E r of
                Inl e \<Rightarrow> (''Error'', ''Please enter valid height and weight.'')
              | Inr (h, w, b) \<Rightarrow> bmi_status E b)],
         overall_summary = None,
         bmi_value = (case bmi_outcome E r of Inl e \<Rightarrow> None | Inr (h, w, b) \<Rightarrow> Some b),
         hb = (case py_float E (hb_raw r) of Inl e \<Rightarrow> None | Inr v \<Rightarrow> Some v),
         sugar = (case py_float E (sugar_raw r) of Inl e \<Rightarrow> None | Inr v \<Rightarrow> Some v),
         bp_sys = (case bp_outcome E r of Inl e \<Rightarrow> None | Inr (sy, di) \<Rightarrow> Some sy),
         bp_dia = (case bp_outcome E r of Inl e \<Rightarrow> None | Inr (sy, di) \<Rightarrow> Some di),
         chol = (case py_float E (chol_raw r) of Inl e \<Rightarrow> None | Inr v \<Rightarrow> Some v),
         height_cm = (case bmi_outcome E r of Inl e \<Rightarrow> None | Inr (h, w, b) \<Rightarrow> Some h),
         weight_kg = (case bmi_outcome E r of Inl e \<Rightarrow> None | Inr (h, w, b) \<Rightarrow> Some w) \<rparr>"

section \<open>The evaluation, block by block\<close>

lemma map_of_dict_set: "map_of (dict_set k v d) = (map_of d)(k \<mapsto> v)"
  by (induction d) (auto simp: fun_upd_twist)

lemma hemoglobin_block_eq:
  "hemoglobin_block E r s =
     (None, s\<lparr>hb := (case py_float E (hb_raw r) of Inl e \<Rightarrow> None | Inr v \<Rightarrow> Some v),
              result := dict_set ''Hemoglobin''
                (case py_float E (hb_raw r) of
                   Inl e \<Rightarrow> (''Error'', ''Please enter a valid Hemoglobin value.'')
                 | Inr v \<Rightarrow> hemoglobin_status v) (result s)\<rparr>)"
  by (simp add: hemoglobin_block_def try_except_def hemoglobin_try_def hemoglobin_except_def
      set_result_def split: sum.splits)

lemma sugar_block_eq:
  "sugar_block E r s =
     (None, s\<lparr>sugar := (case py_float E (sugar_raw r) of Inl e \<Rightarrow> None | Inr v \<Rightarrow> Some v),
              result := dict_set ''Fasting Sugar''
                (case py_float E (sugar_raw r) of
                   Inl e \<Rightarrow> (''Error'', ''Please enter a valid sugar value.'')
                 | Inr v \<Rightarrow> sugar_status v) (result s)\<rparr>)"
  by (simp add: sugar_block_def try_except_def sugar_try_def sugar_except_def
      set_result_def split: sum.splits)

lemma chol_block_eq:
  "chol_block E r s =
     (None, s\<lparr>chol := (case py_float E (chol_raw r) of Inl e \<Rightarrow> None | Inr v \<Rightarrow> Some v),
              result := dict_set ''Cholesterol''
                (case py_float E (chol_raw r) of
                   Inl e \<Rightarrow> (''Error'', ''Please enter a valid cholesterol value.'')
                 | Inr v \<Rightarrow> chol_status v) (result s)\<rparr>)"
  by (simp add: chol_block_def try_except_def chol_try_def chol_except_def
      set_result_def split: sum.splits)

lemma bp_block_eq:
  "bp_block E r s =
     (None, s\<lparr>bp_sys := (case bp_outcome E r of Inl e \<Rightarrow> None | Inr (sy, di) \<Rightarrow> Some sy),
              bp_dia := (case bp_outcome E r of Inl e \<Rightarrow> None | Inr (sy, di) \<Rightarrow> Some di),
              result := dict_set ''Blood Pressure''
                (case bp_outcome E r of
                   Inl e \<Rightarrow> (''Error'', ''Please enter valid BP values.'')
                 | Inr (sy, di) \<Rightarrow> bp_status sy di) (result s)\<rparr>)"
  by (simp add: bp_block_def try_except_def bp_try_def bp_except_def bp_outcome_def
      set_result_def Let_def split: sum.splits)

lemma bmi_block_eq:
  "bmi_block E r s =
     (None, s\<lparr>height_cm := (case bmi_outcome E r of Inl e \<Rightarrow> None | Inr (h, w, b) \<Rightarrow> Some h),
              weight_kg := (case bmi_outcome E r of Inl e \<Rightarrow> None | Inr (h, w, b) \<Rightarrow> Some w),
              bmi_value := (case bmi_outcome E r of Inl e \<Rightarrow> bmi_value s | Inr (h, w, b) \<Rightarrow> Some b),
              result := dict_set ''BMI''
                (case bmi_outcome E r of
                   Inl e \<Rightarrow> (''Error'', ''Please enter valid height and weight.'')
                 | Inr (h, w, b) \<Rightarrow> bmi_status E b) (result s)\<rparr>)"
  by (simp add: bmi_block_def try_except_def bmi_try_def bmi_except_def bmi_outcome_def
      set_result_def Let_def split: sum.splits)

lemma evaluate_eq: "evaluate E r = (None, overall (five_metrics E r))"
  by (simp add: evaluate_def seq_def five_metrics_def initial_locals_def
      hemoglobin_block_eq sugar_block_eq bp_block_eq chol_block_eq bmi_block_eq
      cong: sum.case_cong)

lemma result_overall: "result (overall s) = result s"
  by (simp add: overall_def)

lemma status_of_overall: "status_of (overall s) name = status_of s name"
  by (simp add: status_of_def result_overall)

lemma chol_status_of:
  "status_of (snd (evaluate E r)) ''Cholesterol'' =
     Some (case py_float E (chol_raw r) of Inl e \<Rightarrow> ''Error'' | Inr v \<Rightarrow> fst (chol_status v))"
  by (simp add: evaluate_eq status_of_overall) (simp add: status_of_def five_metrics_def split: sum.splits)

lemma float_le_not_gt: "float_le x y \<Longrightarrow> \<not> float_gt x y"
  unfolding float_gt_def by (cases x; cases y) auto

lemma float_gt_240_200: "float_gt c (Num 240) \<Longrightarrow> float_gt c (Num 200)"
  unfolding float_gt_def by (cases c) auto

lemma sample_float [simp]:
  "py_float sample_builtins (Some ''241'') = Inr (Num 241)"
  "py_float sample_builtins (Some ''240'') = Inr (Num 240)"
  "py_float sample_builtins (Some ''201'') = Inr (Num 201)"
  "py_float sample_builtins (Some ''200'') = Inr (Num 200)"
  by (simp_all add: py_float_def sample_builtins_def decimal_def digit_value_def)

section \<open>Cholesterol\<close>

text \<open>
  Claim C4. For every cholesterol value \<open>c\<close> that \<open>float\<close> returns: \<open>c > 240\<close> gives the status
  "High", \<open>200 < c \<le> 240\<close> gives "Borderline" and \<open>c \<le> 200\<close> gives "Normal". The
  comparisons are those of Python floats, so the infinities are covered and NaN, for which
  no comparison holds, falls under none of the three cases.
\<close>

theorem cholesterol_thresholds:
  assumes "py_float E (chol_raw r) = Inr c"
  shows "(float_gt c (Num 240) \<longrightarrow> status_of (snd (evaluate E r)) ''Cholesterol'' = Some ''High'')
       \<and> (float_gt c (Num 200) \<and> float_le c (Num 240)
            \<longrightarrow> status_of (snd (evaluate E r)) ''Cholesterol'' = Some ''Borderline'')
       \<and> (float_le c (Num 200) \<longrightarrow> status_of (snd (evaluate E r)) ''Cholesterol'' = Some ''Normal'')"
  using assms float_le_not_gt [of c "Num 240"] float_le_not_gt [of c "Num 200"] float_gt_240_200 [of c]
  by (auto simp: chol_status_of chol_status_def)

text \<open>The three cases at the inputs 241, 201 and 200.\<close>

theorem cholesterol_thresholds_witness:
  "status_of (snd (evaluate sample_builtins (sample_raw\<lparr>chol_raw := Some ''241''\<rparr>))) ''Cholesterol'' = Some ''High''
   \<and> status_of (snd (evaluate sample_builtins (sample_raw\<lparr>chol_raw := Some ''201''\<rparr>))) ''Cholesterol'' = Some ''Borderline''
   \<and> status_of (snd (evaluate sample_builtins (sample_raw\<lparr>chol_raw := Some ''200''\<rparr>))) ''Cholesterol'' = Some ''Normal''"
  using cholesterol_thresholds [of sample_builtins "sample_raw\<lparr>chol_raw := Some ''241''\<rparr>" "Num 241"]
    cholesterol_thresholds [of sample_builtins "sample_raw\<lparr>chol_raw := Some ''201''\<rparr>" "Num 201"]
    cholesterol_thresholds [of sample_builtins "sample_raw\<lparr>chol_raw := Some ''200''\<rparr>" "Num 200"]
  by (simp add: float_gt_def)

text \<open>
  Claim C3 says that the cholesterol input 240 is classified "Normal". The code tests
  \<open>chol > 240\<close> and then \<open>chol > 200\<close>: 240 is not above 240 but it is above 200, so the form
  value \<open>240\<close> is not classified "Normal".
\<close>

theorem cholesterol_240_counterexample:
  "status_of (snd (evaluate sample_builtins (sample_raw\<lparr>chol_raw := Some ''240''\<rparr>))) ''Cholesterol''
     \<noteq> Some ''Normal''"
  by (simp add: chol_status_of chol_status_def float_gt_def)

text \<open>
  Claim C3, amended. For the cholesterol input exactly equal to 240, the classification
  status is "Borderline": not "High", since the High rule is strictly greater than 240, and
  not "Normal", since 240 is greater than 200.
\<close>

theorem cholesterol_240_borderline:
  assumes "py_float E (chol_raw r) = Inr (Num 240)"
  shows "status_of (snd (evaluate E r)) ''Cholesterol'' = Some ''Borderline''"
  using assms by (simp add: chol_status_of chol_status_def float_gt_def)

theorem cholesterol_240_borderline_witness:
  "status_of (snd (evaluate sample_builtins (sample_raw\<lparr>chol_raw := Some ''240''\<rparr>))) ''Cholesterol''
     = Some ''Borderline''"
  using cholesterol_240_borderline [of sample_builtins "sample_raw\<lparr>chol_raw := Some ''240''\<rparr>"]
  by simp

section \<open>Blood pressure\<close>

lemma bp_status_of:
  "status_of (snd (evaluate E r)) ''Blood Pressure'' =
     Some (case bp_outcome E r of Inl e \<Rightarrow> ''Error'' | Inr (sy, di) \<Rightarrow> fst (bp_status sy di))"
  by (simp add: evaluate_eq status_of_overall)
     (simp add: status_of_def five_metrics_def split: sum.splits prod.splits)

lemma bp_outcome_Inr:
  "py_int E (bp_sys_raw r) = Inr sy \<Longrightarrow> py_int E (bp_dia_raw r) = Inr di \<Longrightarrow>
   bp_outcome E r = Inr (sy, di)"
  by (simp add: bp_outcome_def)

text \<open>
  Claim C5. For every pair of integers that \<open>int\<close> returns for the two pressure fields: if
  \<open>sys < 90\<close> or \<open>dia < 60\<close> the status is "Low", whatever the High rule would say (the Low
  rule is tested first); otherwise, if \<open>sys > 140\<close> or \<open>dia > 90\<close> it is "High"; otherwise
  "Normal".
\<close>

theorem blood_pressure_rules:
  assumes "py_int E (bp_sys_raw r) = Inr sy" and "py_int E (bp_dia_raw r) = Inr di"
  shows "(sy < 90 \<or> di < 60 \<longrightarrow> status_of (snd (evaluate E r)) ''Blood Pressure'' = Some ''Low'')
       \<and> (\<not> (sy < 90 \<or> di < 60) \<and> (sy > 140 \<or> di > 90)
            \<longrightarrow> status_of (snd (evaluate E r)) ''Blood Pressure'' = Some ''High'')
       \<and> (\<not> (sy < 90 \<or> di < 60) \<and> \<not> (sy > 140 \<or> di > 90)
            \<longrightarrow> status_of (snd (evaluate E r)) ''Blood Pressure'' = Some ''Normal'')"
  using bp_outcome_Inr [OF assms] by (simp add: bp_status_of bp_status_def)

lemma sample_int [simp]:
  "py_int sample_builtins (Some ''200'') = Inr 200"
  "py_int sample_builtins (Some ''50'') = Inr 50"
  "py_int sample_builtins (Some ''90'') = Inr 90"
  "py_int sample_builtins (Some ''60'') = Inr 60"
  "py_int sample_builtins (Some ''140'') = Inr 140"
  "py_int sample_builtins (Some ''141'') = Inr 141"
  by (simp_all add: py_int_def sample_builtins_def decimal_def digit_value_def)

text \<open>
  At the forms 200/50 (Low although the systolic value is above 140), 141/90 (High) and
  the two boundary pairs 90/60 and 140/90 (Normal).
\<close>

theorem blood_pressure_rules_witness:
  "status_of (snd (evaluate sample_builtins
      (sample_raw\<lparr>bp_sys_raw := Some ''200'', bp_dia_raw := Some ''50''\<rparr>))) ''Blood Pressure'' = Some ''Low''
   \<and> status_of (snd (evaluate sample_builtins
      (sample_raw\<lparr>bp_sys_raw := Some ''141'', bp_dia_raw := Some ''90''\<rparr>))) ''Blood Pressure'' = Some ''High''
   \<and> status_of (snd (evaluate sample_builtins
      (sample_raw\<lparr>bp_sys_raw := Some ''90'', bp_dia_raw := Some ''60''\<rparr>))) ''Blood Pressure'' = Some ''Normal''
   \<and> status_of (snd (evaluate sample_builtins
      (sample_raw\<lparr>bp_sys_raw := Some ''140'', bp_dia_raw := Some ''90''\<rparr>))) ''Blood Pressure'' = Some ''Normal''"
  using
    blood_pressure_rules [of sample_builtins "sample_raw\<lparr>bp_sys_raw := Some ''200'', bp_dia_raw := Some ''50''\<rparr>" 200 50]
    blood_pressure_rules [of sample_builtins "sample_raw\<lparr>bp_sys_raw := Some ''141'', bp_dia_raw := Some ''90''\<rparr>" 141 90]
    blood_pressure_rules [of sample_builtins "sample_raw\<lparr>bp_sys_raw := Some ''90'', bp_dia_raw := Some ''60''\<rparr>" 90 60]
    blood_pressure_rules [of sample_builtins "sample_raw\<lparr>bp_sys_raw := Some ''140'', bp_dia_raw := Some ''90''\<rparr>" 140 90]
  by simp

section \<open>The overall summary\<close>

lemma startswith_prefix: "startswith s p = prefix p s"
  by (induction s p rule: startswith.induct) auto

lemma contains_sublist: "contains s p = sublist p s"
  by (induction s) (simp_all add: sublist_Cons_right startswith_prefix)

lemma is_abnormal_spec: "is_abnormal = spec_is_abnormal"
  by (rule ext) (simp add: is_abnormal_def spec_is_abnormal_def startswith_prefix contains_sublist)

lemma py_any_set: "py_any bs = (True \<in> set bs)"
  by (induction bs) auto

lemma any_error_spec:
  "py_any (map (\<lambda>s. s = ''Error'' \<or> startswith s ''Error'') statuses)
     = (\<exists>st \<in># mset statuses. spec_is_error st)"
  by (auto simp: py_any_set spec_is_error_def startswith_prefix)

lemma count_loop_filter: "count_loop statuses n = n + length (filter is_abnormal statuses)"
  by (induction statuses arbitrary: n) simp_all

lemma count_loop_spec: "count_loop statuses 0 = size (filter_mset spec_is_abnormal (mset statuses))"
  by (simp add: count_loop_filter is_abnormal_spec flip: mset_filter)

lemma rollup_cases:
  fixes n :: nat
  shows "fst (if b then (''Data Issue'', m0)
              else let c = n in
                if c = 0 then (''Stable / Normal'', m1)
                else if c = 1 then (''Mild Concern'', m2)
                else if 2 \<le> c \<and> c \<le> 3 then (''Needs Attention'', m3)
                else (''High Risk'', m4))
       = (if b then ''Data Issue''
          else let c = n in
            if c = 0 then ''Stable / Normal''
            else if c = 1 then ''Mild Concern''
            else if c = 2 \<or> c = 3 then ''Needs Attention''
            else ''High Risk'')"
  by (auto simp: Let_def)

lemma summarize_status: "fst (summarize statuses) = spec_rollup (mset statuses)"
  unfolding summarize_def spec_rollup_def any_error_spec count_loop_spec
  by (rule rollup_cases)

lemma summarize_mset:
  assumes "mset xs = mset ys"
  shows "summarize xs = summarize ys"
  unfolding summarize_def any_error_spec count_loop_spec assms ..

lemma statuses_of_values: "map fst (dict_values (result s)) = statuses_of s"
  by (simp add: statuses_of_def dict_values_def case_prod_beta)

lemma overall_nonempty:
  "result s \<noteq> [] \<Longrightarrow> overall_summary (overall s) = Some (summarize (statuses_of s))"
  by (simp add: overall_def statuses_of_values)

lemma statuses_of_overall: "statuses_of (overall s) = statuses_of s"
  by (simp add: statuses_of_def result_overall)

lemma result_five_metrics_nonempty: "result (five_metrics E r) \<noteq> []"
  by (simp add: five_metrics_def)

text \<open>
  Claim C1. Whenever \<open>result\<close> holds at least one classification, the status of the overall
  summary is the reference rollup of the specification applied to the multiset of the
  statuses: "Data Issue" as soon as one status is or begins with "Error", and otherwise
  "Stable / Normal", "Mild Concern", "Needs Attention" or "High Risk" for 0, 1, 2 to 3, or
  at least 4 abnormal statuses. Two results with the same statuses in any order get the
  same summary, text included. Every evaluation produces classifications, so its
  summary is this rollup.
\<close>

theorem overall_rollup:
  "(result s \<noteq> [] \<longrightarrow>
      map_option fst (overall_summary (overall s)) = Some (spec_rollup (mset (statuses_of s)))
      \<and> (\<forall>s'. mset (statuses_of s') = mset (statuses_of s) \<longrightarrow>
             overall_summary (overall s') = overall_summary (overall s)))
   \<and> result (snd (evaluate E r)) \<noteq> []
   \<and> map_option fst (overall_summary (snd (evaluate E r)))
        = Some (spec_rollup (mset (statuses_of (snd (evaluate E r)))))"
proof (intro conjI impI allI)
  assume ne: "result s \<noteq> []"
  then show "map_option fst (overall_summary (overall s)) = Some (spec_rollup (mset (statuses_of s)))"
    by (simp add: overall_nonempty summarize_status)
  fix s' assume m: "mset (statuses_of s') = mset (statuses_of s)"
  from ne have "statuses_of s \<noteq> []" by (simp add: statuses_of_def)
  with m have "statuses_of s' \<noteq> []" by auto
  then have "result s' \<noteq> []" by (auto simp: statuses_of_def)
  with ne m show "overall_summary (overall s') = overall_summary (overall s)"
    by (simp add: overall_nonempty summarize_mset [OF m])
next
  show "result (snd (evaluate E r)) \<noteq> []"
    by (simp add: evaluate_eq result_overall result_five_metrics_nonempty)
  show "map_option fst (overall_summary (snd (evaluate E r)))
        = Some (spec_rollup (mset (statuses_of (snd (evaluate E r)))))"
    by (simp add: evaluate_eq statuses_of_overall overall_nonempty result_five_metrics_nonempty
        summarize_status)
qed

subsection \<open>The evaluation of the all-normal form\<close>

lemma sample_parse [simp]:
  "py_float sample_builtins (Some ''14'') = Inr (Num 14)"
  "py_float sample_builtins (Some ''100'') = Inr (Num 100)"
  "py_float sample_builtins (Some ''180'') = Inr (Num 180)"
  "py_float sample_builtins (Some ''88'') = Inr (Num 88)"
  "py_int sample_builtins (Some ''120'') = Inr 120"
  "py_int sample_builtins (Some ''80'') = Inr 80"
  by (simp_all add: py_float_def py_int_def sample_builtins_def decimal_def digit_value_def)

lemma sample_bmi: "compute_bmi sample_builtins (Num 200) (Num 88) = Inr (Num 22)"
  by (simp add: compute_bmi_def float_div_def float_mul_def sample_builtins_def)

lemma sample_label: "format_1f sample_builtins (Num 22) = ''22.0''"
  by (simp add: sample_builtins_def round_half_even_def show_nat.simps digit_char_def)


lemma sample_five:
  "five_metrics sample_builtins sample_raw =
      \<lparr> result =
          [(''Hemoglobin'', ''Normal'', ''Hemoglobin is within the normal range.''),
           (''Fasting Sugar'', ''Normal'', ''Fasting sugar is within the normal range.''),
           (''Blood Pressure'', ''Normal'', ''Blood pressure is within the normal range.''),
           (''Cholesterol'', ''Normal'', ''Cholesterol is within a healthy range.''),
           (''BMI'', ''22.0 (Normal)'', ''BMI is within normal limits.'')],
        overall_summary = None,
        bmi_value = Some (Num 22), hb = Some (Num 14), sugar = Some (Num 100),
        bp_sys = Some 120, bp_dia = Some 80, chol = Some (Num 180),
        height_cm = Some (Num 200), weight_kg = Some (Num 88) \<rparr>"
  by (simp add: five_metrics_def sample_raw_def bp_outcome_def bmi_outcome_def sample_bmi
      hemoglobin_status_def sugar_status_def bp_status_def chol_status_def bmi_status_def
      sample_label float_gt_def lit_24_9_def)

lemma sample_run:
  "evaluate sample_builtins sample_raw =
     (None,
      \<lparr> result =
          [(''Hemoglobin'', ''Normal'', ''Hemoglobin is within the normal range.''),
           (''Fasting Sugar'', ''Normal'', ''Fasting sugar is within the normal range.''),
           (''Blood Pressure'', ''Normal'', ''Blood pressure is within the normal range.''),
           (''Cholesterol'', ''Normal'', ''Cholesterol is within a healthy range.''),
           (''BMI'', ''22.0 (Normal)'', ''BMI is within normal limits.'')],
        overall_summary =
          Some (''Stable / Normal'',
                ''All tracked parameters appear within normal ranges. Maintain your current lifestyle and regular check-ups.''),
        bmi_value = Some (Num 22), hb = Some (Num 14), sugar = Some (Num 100),
        bp_sys = Some 120, bp_dia = Some 80, chol = Some (Num 180),
        height_cm = Some (Num 200), weight_kg = Some (Num 88) \<rparr>)"
  by (simp add: evaluate_eq sample_five overall_def dict_values_def summarize_def is_abnormal_def)

text \<open>
  One Low, one Overweight and one Normal status give "Needs Attention" in either order, and
  the all-normal form gives "Stable / Normal".
\<close>

theorem overall_rollup_witness:
  "result (initial_locals\<lparr>result := [(''Hemoglobin'', ''Low'', []), (''BMI'', ''30.1 (Overweight)'', []),
        (''Cholesterol'', ''Normal'', [])]\<rparr>) \<noteq> []
   \<and> spec_rollup {#''Low'', ''30.1 (Overweight)'', ''Normal''#} = ''Needs Attention''
   \<and> overall_summary (overall (initial_locals\<lparr>result := [(''Cholesterol'', ''Normal'', []),
        (''BMI'', ''30.1 (Overweight)'', []), (''Hemoglobin'', ''Low'', [])]\<rparr>))
       = overall_summary (overall (initial_locals\<lparr>result := [(''Hemoglobin'', ''Low'', []),
        (''BMI'', ''30.1 (Overweight)'', []), (''Cholesterol'', ''Normal'', [])]\<rparr>))
   \<and> spec_rollup (mset (statuses_of (snd (evaluate sample_builtins sample_raw)))) = ''Stable / Normal''"
proof -
  let ?s = "initial_locals\<lparr>result := [(''Hemoglobin'', ''Low'', []), (''BMI'', ''30.1 (Overweight)'', []),
        (''Cholesterol'', ''Normal'', [])]\<rparr>"
  let ?s' = "initial_locals\<lparr>result := [(''Cholesterol'', ''Normal'', []),
        (''BMI'', ''30.1 (Overweight)'', []), (''Hemoglobin'', ''Low'', [])]\<rparr>"
  note th = overall_rollup [of ?s sample_builtins sample_raw]
  have ne: "result ?s \<noteq> []" by simp
  have code: "map_option fst (overall_summary (overall ?s)) = Some ''Needs Attention''"
    by (simp add: overall_def dict_values_def summarize_def is_abnormal_def)
  have st: "mset (statuses_of ?s) = {#''Low'', ''30.1 (Overweight)'', ''Normal''#}"
    by (simp add: statuses_of_def)
  have perm: "mset (statuses_of ?s') = mset (statuses_of ?s)"
    by (simp add: statuses_of_def)
  have run: "map_option fst (overall_summary (snd (evaluate sample_builtins sample_raw))) = Some ''Stable / Normal''"
    by (simp add: sample_run)
  from th ne have a: "map_option fst (overall_summary (overall ?s)) = Some (spec_rollup (mset (statuses_of ?s)))"
    by blast
  from th ne perm have b: "overall_summary (overall ?s') = overall_summary (overall ?s)"
    by blast
  from th have c: "map_option fst (overall_summary (snd (evaluate sample_builtins sample_raw)))
        = Some (spec_rollup (mset (statuses_of (snd (evaluate sample_builtins sample_raw)))))"
    by blast
  from a code st have a': "spec_rollup {#''Low'', ''30.1 (Overweight)'', ''Normal''#} = ''Needs Attention''"
    by (simp only: option.inject)
  from c run have c': "spec_rollup (mset (statuses_of (snd (evaluate sample_builtins sample_raw)))) = ''Stable / Normal''"
    by (simp only: option.inject)
  from ne a' b c' show ?thesis by (intro conjI)
qed

section \<open>The persistence gate\<close>

lemma index_post:
  "http_method req = ''POST'' \<Longrightarrow>
   index E now ses req db =
     (case save_if_valid now (session_user_id ses) (snd (evaluate E (read_form (form req)))) db of
        (Some e, db') \<Rightarrow> Inl e
      | (None, db') \<Rightarrow> Inr (db', render ses (snd (evaluate E (read_form (form req))))))"
  by (simp add: index_def evaluate_eq split: prod.splits option.splits)

lemma numbers_overall [simp]:
  "hb (overall s) = hb s" "sugar (overall s) = sugar s" "bp_sys (overall s) = bp_sys s"
  "bp_dia (overall s) = bp_dia s" "chol (overall s) = chol s" "height_cm (overall s) = height_cm s"
  "weight_kg (overall s) = weight_kg s" "bmi_value (overall s) = bmi_value s"
  by (simp_all add: overall_def)





lemma save_if_valid_none:
  assumes "hb s = None \<or> sugar s = None \<or> bp_sys s = None \<or> bp_dia s = None
    \<or> chol s = None \<or> height_cm s = None \<or> weight_kg s = None \<or> bmi_value s = None"
  shows "save_if_valid now uid s db = (None, db)"
  using assms by (auto simp: save_if_valid_def all_valid_def)






lemma numbers_evaluate:
  "hb (snd (evaluate E r)) = (case py_float E (hb_raw r) of Inl e \<Rightarrow> None | Inr v \<Rightarrow> Some v)"
  "sugar (snd (evaluate E r)) = (case py_float E (sugar_raw r) of Inl e \<Rightarrow> None | Inr v \<Rightarrow> Some v)"
  "bp_sys (snd (evaluate E r)) = (case bp_outcome E r of Inl e \<Rightarrow> None | Inr (sy, di) \<Rightarrow> Some sy)"
  "bp_dia (snd (evaluate E r)) = (case bp_outcome E r of Inl e \<Rightarrow> None | Inr (sy, di) \<Rightarrow> Some di)"
  "chol (snd (evaluate E r)) = (case py_float E (chol_raw r) of Inl e \<Rightarrow> None | Inr v \<Rightarrow> Some v)"
  "height_cm (snd (evaluate E r)) = (case bmi_outcome E r of Inl e \<Rightarrow> None | Inr (h, w, b) \<Rightarrow> Some h)"
  "weight_kg (snd (evaluate E r)) = (case bmi_outcome E r of Inl e \<Rightarrow> None | Inr (h, w, b) \<Rightarrow> Some w)"
  "bmi_value (snd (evaluate E r)) = (case bmi_outcome E r of Inl e \<Rightarrow> None | Inr (h, w, b) \<Rightarrow> Some b)"
  by (simp_all add: evaluate_eq five_metrics_def)










section \<open>No exception leaves the evaluation\<close>

lemma entries_evaluate:
  "map_of (result (snd (evaluate E r))) ''Hemoglobin'' =
     Some (case py_float E (hb_raw r) of
             Inl e \<Rightarrow> (''Error'', ''Please enter a valid Hemoglobin value.'')
           | Inr v \<Rightarrow> hemoglobin_status v)"
  "map_of (result (snd (evaluate E r))) ''Fasting Sugar'' =
     Some (case py_float E (sugar_raw r) of
             Inl e \<Rightarrow> (''Error'', ''Please enter a valid sugar value.'')
           | Inr v \<Rightarrow> sugar_status v)"
  "map_of (result (snd (evaluate E r))) ''Blood Pressure'' =
     Some (case bp_outcome E r of
             Inl e \<Rightarrow> (''Error'', ''Please enter valid BP values.'')
           | Inr (sy, di) \<Rightarrow> bp_status sy di)"
  "map_of (result (snd (evaluate E r))) ''Cholesterol'' =
     Some (case py_float E (chol_raw r) of
             Inl e \<Rightarrow> (''Error'', ''Please enter a valid cholesterol value.'')
           | Inr v \<Rightarrow> chol_status v)"
  "map_of (result (snd (evaluate E r))) ''BMI'' =
     Some (case bmi_outcome E r of
             Inl e \<Rightarrow> (''Error'', ''Please enter valid height and weight.'')
           | Inr (h, w, b) \<Rightarrow> bmi_status E b)"
  by (simp_all add: evaluate_eq result_overall five_metrics_def)

lemma keys_evaluate:
  "map fst (result (snd (evaluate E r))) =
     [''Hemoglobin'', ''Fasting Sugar'', ''Blood Pressure'', ''Cholesterol'', ''BMI'']"
  by (simp add: evaluate_eq result_overall five_metrics_def)

lemma summary_evaluate: "overall_summary (snd (evaluate E r)) \<noteq> None"
  by (simp add: evaluate_eq overall_def five_metrics_def)

lemma bp_outcome_Inl:
  "isl (py_int E (bp_sys_raw r)) \<or> isl (py_int E (bp_dia_raw r)) \<Longrightarrow> isl (bp_outcome E r)"
  by (auto simp: bp_outcome_def split: sum.splits)

lemma bmi_outcome_Inl:
  "isl (py_float E (height_raw r)) \<or> isl (py_float E (weight_raw r)) \<Longrightarrow> isl (bmi_outcome E r)"
  by (auto simp: bmi_outcome_def split: sum.splits)

lemma bp_outcome_same:
  assumes "bp_sys_raw r' = bp_sys_raw r" and "bp_dia_raw r' = bp_dia_raw r"
  shows "bp_outcome E r' = bp_outcome E r"
  unfolding bp_outcome_def assms ..

lemma bmi_outcome_same:
  assumes "height_raw r' = height_raw r" and "weight_raw r' = weight_raw r"
  shows "bmi_outcome E r' = bmi_outcome E r"
  unfolding bmi_outcome_def assms ..

text \<open>
  Claim C6. For every raw input and whatever the parsers return, no exception leaves the
  evaluation: each exception is raised inside a \<open>try\<close> whose handler catches it. The result always holds the five classifications, in order, and
  a summary. A field that \<open>float\<close> or \<open>int\<close> rejects (missing fields included) gives its
  metric the status "Error" and leaves its numbers absent. The classification of a
  metric depends on that metric's own fields only, so a malformed field never changes
  the classification of another metric.
\<close>

theorem evaluation_never_raises:
  "fst (evaluate E r) = None
   \<and> map fst (result (snd (evaluate E r)))
       = [''Hemoglobin'', ''Fasting Sugar'', ''Blood Pressure'', ''Cholesterol'', ''BMI'']
   \<and> overall_summary (snd (evaluate E r)) \<noteq> None
   \<and> (isl (py_float E (hb_raw r)) \<longrightarrow>
         status_of (snd (evaluate E r)) ''Hemoglobin'' = Some ''Error'' \<and> hb (snd (evaluate E r)) = None)
   \<and> (isl (py_float E (sugar_raw r)) \<longrightarrow>
         status_of (snd (evaluate E r)) ''Fasting Sugar'' = Some ''Error''
         \<and> sugar (snd (evaluate E r)) = None)
   \<and> (isl (py_int E (bp_sys_raw r)) \<or> isl (py_int E (bp_dia_raw r)) \<longrightarrow>
         status_of (snd (evaluate E r)) ''Blood Pressure'' = Some ''Error''
         \<and> bp_sys (snd (evaluate E r)) = None \<and> bp_dia (snd (evaluate E r)) = None)
   \<and> (isl (py_float E (chol_raw r)) \<longrightarrow>
         status_of (snd (evaluate E r)) ''Cholesterol'' = Some ''Error'' \<and> chol (snd (evaluate E r)) = None)
   \<and> (isl (py_float E (height_raw r)) \<or> isl (py_float E (weight_raw r)) \<longrightarrow>
         status_of (snd (evaluate E r)) ''BMI'' = Some ''Error''
         \<and> height_cm (snd (evaluate E r)) = None \<and> weight_kg (snd (evaluate E r)) = None
         \<and> bmi_value (snd (evaluate E r)) = None)
   \<and> (\<forall>r'. hb_raw r' = hb_raw r \<longrightarrow>
         map_of (result (snd (evaluate E r'))) ''Hemoglobin''
           = map_of (result (snd (evaluate E r))) ''Hemoglobin'')
   \<and> (\<forall>r'. sugar_raw r' = sugar_raw r \<longrightarrow>
         map_of (result (snd (evaluate E r'))) ''Fasting Sugar''
           = map_of (result (snd (evaluate E r))) ''Fasting Sugar'')
   \<and> (\<forall>r'. bp_sys_raw r' = bp_sys_raw r \<and> bp_dia_raw r' = bp_dia_raw r \<longrightarrow>
         map_of (result (snd (evaluate E r'))) ''Blood Pressure''
           = map_of (result (snd (evaluate E r))) ''Blood Pressure'')
   \<and> (\<forall>r'. chol_raw r' = chol_raw r \<longrightarrow>
         map_of (result (snd (evaluate E r'))) ''Cholesterol''
           = map_of (result (snd (evaluate E r))) ''Cholesterol'')
   \<and> (\<forall>r'. height_raw r' = height_raw r \<and> weight_raw r' = weight_raw r \<longrightarrow>
         map_of (result (snd (evaluate E r'))) ''BMI'' = map_of (result (snd (evaluate E r))) ''BMI'')"
proof (intro conjI impI allI)
  show "fst (evaluate E r) = None"
    by (simp add: evaluate_eq)
  show "map fst (result (snd (evaluate E r)))
       = [''Hemoglobin'', ''Fasting Sugar'', ''Blood Pressure'', ''Cholesterol'', ''BMI'']"
    by (rule keys_evaluate)
  show "overall_summary (snd (evaluate E r)) \<noteq> None"
    by (rule summary_evaluate)
next
  assume "isl (py_float E (hb_raw r))"
  then show "status_of (snd (evaluate E r)) ''Hemoglobin'' = Some ''Error''"
    and "hb (snd (evaluate E r)) = None"
    by (auto simp: status_of_def entries_evaluate numbers_evaluate split: sum.splits)
next
  assume "isl (py_float E (sugar_raw r))"
  then show "status_of (snd (evaluate E r)) ''Fasting Sugar'' = Some ''Error''"
    and "sugar (snd (evaluate E r)) = None"
    by (auto simp: status_of_def entries_evaluate numbers_evaluate split: sum.splits)
next
  assume "isl (py_int E (bp_sys_raw r)) \<or> isl (py_int E (bp_dia_raw r))"
  then have "isl (bp_outcome E r)" by (rule bp_outcome_Inl)
  then show "status_of (snd (evaluate E r)) ''Blood Pressure'' = Some ''Error''"
    and "bp_sys (snd (evaluate E r)) = None" and "bp_dia (snd (evaluate E r)) = None"
    by (auto simp: status_of_def entries_evaluate numbers_evaluate split: sum.splits)
next
  assume "isl (py_float E (chol_raw r))"
  then show "status_of (snd (evaluate E r)) ''Cholesterol'' = Some ''Error''"
    and "chol (snd (evaluate E r)) = None"
    by (auto simp: status_of_def entries_evaluate numbers_evaluate split: sum.splits)
next
  assume "isl (py_float E (height_raw r)) \<or> isl (py_float E (weight_raw r))"
  then have "isl (bmi_outcome E r)" by (rule bmi_outcome_Inl)
  then show "status_of (snd (evaluate E r)) ''BMI'' = Some ''Error''"
    and "height_cm (snd (evaluate E r)) = None" and "weight_kg (snd (evaluate E r)) = None"
    and "bmi_value (snd (evaluate E r)) = None"
    by (auto simp: status_of_def entries_evaluate numbers_evaluate split: sum.splits)
next
  fix r' :: raw_input assume "hb_raw r' = hb_raw r"
  then show "map_of (result (snd (evaluate E r'))) ''Hemoglobin''
           = map_of (result (snd (evaluate E r))) ''Hemoglobin''"
    by (simp add: entries_evaluate)
next
  fix r' :: raw_input assume "sugar_raw r' = sugar_raw r"
  then show "map_of (result (snd (evaluate E r'))) ''Fasting Sugar''
           = map_of (result (snd (evaluate E r))) ''Fasting Sugar''"
    by (simp add: entries_evaluate)
next
  fix r' :: raw_input assume "bp_sys_raw r' = bp_sys_raw r \<and> bp_dia_raw r' = bp_dia_raw r"
  then have "bp_outcome E r' = bp_outcome E r"
    by (simp add: bp_outcome_same [of r' r])
  then show "map_of (result (snd (evaluate E r'))) ''Blood Pressure''
           = map_of (result (snd (evaluate E r))) ''Blood Pressure''"
    by (simp add: entries_evaluate)
next
  fix r' :: raw_input assume "chol_raw r' = chol_raw r"
  then show "map_of (result (snd (evaluate E r'))) ''Cholesterol''
           = map_of (result (snd (evaluate E r))) ''Cholesterol''"
    by (simp add: entries_evaluate)
next
  fix r' :: raw_input assume "height_raw r' = height_raw r \<and> weight_raw r' = weight_raw r"
  then have "bmi_outcome E r' = bmi_outcome E r"
    by (simp add: bmi_outcome_same [of r' r])
  then show "map_of (result (snd (evaluate E r'))) ''BMI'' = map_of (result (snd (evaluate E r))) ''BMI''"
    by (simp add: entries_evaluate)
qed


lemma sample_malformed:
  "isl (py_float sample_builtins (Some ''abc''))" "isl (py_int sample_builtins None)"
  "isl (py_float sample_builtins (Some ''1.2.3''))"
  by (simp_all add: py_float_def py_int_def sample_builtins_def decimal_def digit_value_def)

text \<open>
  A form with a non-numeric hemoglobin, no diastolic pressure and a malformed height:
  three metrics are "Error", and cholesterol is classified as in the all-normal form.
\<close>

theorem evaluation_never_raises_witness:
  "fst (evaluate sample_builtins
      (sample_raw\<lparr>hb_raw := Some ''abc'', bp_dia_raw := None, height_raw := Some ''1.2.3''\<rparr>)) = None
   \<and> status_of (snd (evaluate sample_builtins
        (sample_raw\<lparr>hb_raw := Some ''abc'', bp_dia_raw := None, height_raw := Some ''1.2.3''\<rparr>)))
        ''Hemoglobin'' = Some ''Error''
   \<and> status_of (snd (evaluate sample_builtins
        (sample_raw\<lparr>hb_raw := Some ''abc'', bp_dia_raw := None, height_raw := Some ''1.2.3''\<rparr>)))
        ''Blood Pressure'' = Some ''Error''
   \<and> status_of (snd (evaluate sample_builtins
        (sample_raw\<lparr>hb_raw := Some ''abc'', bp_dia_raw := None, height_raw := Some ''1.2.3''\<rparr>)))
        ''BMI'' = Some ''Error''
   \<and> map_of (result (snd (evaluate sample_builtins
        (sample_raw\<lparr>hb_raw := Some ''abc'', bp_dia_raw := None, height_raw := Some ''1.2.3''\<rparr>))))
        ''Cholesterol''
       = Some (''Normal'', ''Cholesterol is within a healthy range.'')"
proof -
  define bad where
    "bad = sample_raw\<lparr>hb_raw := Some ''abc'', bp_dia_raw := None, height_raw := Some ''1.2.3''\<rparr>"
  note th = evaluation_never_raises [of sample_builtins bad]
  have m1: "isl (py_float sample_builtins (hb_raw bad))"
    and m2: "isl (py_int sample_builtins (bp_sys_raw bad)) \<or> isl (py_int sample_builtins (bp_dia_raw bad))"
    and m3: "isl (py_float sample_builtins (height_raw bad)) \<or> isl (py_float sample_builtins (weight_raw bad))"
    by (simp_all add: bad_def sample_malformed)
  have same: "chol_raw sample_raw = chol_raw bad"
    by (simp add: bad_def)
  have ok: "map_of (result (snd (evaluate sample_builtins sample_raw))) ''Cholesterol''
      = Some (''Normal'', ''Cholesterol is within a healthy range.'')"
    by (simp add: sample_run)
  note t3 = th [THEN conjunct2, THEN conjunct2, THEN conjunct2]
  note t7 = t3 [THEN conjunct2, THEN conjunct2, THEN conjunct2, THEN conjunct2]
  note t11 = t7 [THEN conjunct2, THEN conjunct2, THEN conjunct2, THEN conjunct2]
  have "fst (evaluate sample_builtins bad) = None"
    by (rule th [THEN conjunct1])
  moreover have "status_of (snd (evaluate sample_builtins bad)) ''Hemoglobin'' = Some ''Error''"
    by (rule t3 [THEN conjunct1, rule_format, OF m1, THEN conjunct1])
  moreover have "status_of (snd (evaluate sample_builtins bad)) ''Blood Pressure'' = Some ''Error''"
    by (rule t3 [THEN conjunct2, THEN conjunct2, THEN conjunct1, rule_format, OF m2, THEN conjunct1])
  moreover have "status_of (snd (evaluate sample_builtins bad)) ''BMI'' = Some ''Error''"
    by (rule t7 [THEN conjunct1, rule_format, OF m3, THEN conjunct1])
  moreover have "map_of (result (snd (evaluate sample_builtins bad))) ''Cholesterol''
      = Some (''Normal'', ''Cholesterol is within a healthy range.'')"
    using t11 [THEN conjunct1, rule_format, OF same] ok by (simp only:)
  ultimately show ?thesis
    unfolding bad_def by (intro conjI)
qed

section \<open>The presence of the summary\<close>










section \<open>A height of zero\<close>

lemma div_100_zero: "is_zero z \<Longrightarrow> \<exists>neg. float_div E z (Num 100) = Inr (signed_zero neg)"
  by (cases z) (auto simp: float_div_def)

lemma square_zero: "\<exists>neg. float_mul E (signed_zero n) (signed_zero n) = signed_zero neg"
  by (auto simp: float_mul_def signed_zero_def)

lemma div_by_zero: "float_div E w (signed_zero neg) = Inl ZeroDivisionError"
  by (simp add: float_div_def signed_zero_def)

lemma compute_bmi_zero_height: "is_zero z \<Longrightarrow> compute_bmi E z w = Inl ZeroDivisionError"
proof -
  assume "is_zero z"
  then obtain n where h: "float_div E z (Num 100) = Inr (signed_zero n)"
    using div_100_zero by blast
  obtain n' where "float_mul E (signed_zero n) (signed_zero n) = signed_zero n'"
    using square_zero by blast
  with h show ?thesis
    by (simp add: compute_bmi_def div_by_zero)
qed

text \<open>
  Claim C10. When the height field parses to a zero (either sign) and the weight field
  parses, the division by the squared height raises \<open>ZeroDivisionError\<close> inside the \<open>try\<close>
  of the BMI block, after both locals were assigned. The handler that serves parse failures
  runs: the BMI status is "Error", height and weight are reset to \<open>None\<close>, and the BMI
  value stays \<open>None\<close>. No exception leaves the evaluation, and a POST of such a form
  writes no report.
\<close>

theorem zero_height_is_error:
  assumes "py_float E (height_raw r) = Inr z" and "is_zero z"
    and "py_float E (weight_raw r) = Inr w"
  shows "compute_bmi E z w = Inl ZeroDivisionError
    \<and> bmi_try E r s0 = (Some ZeroDivisionError, s0\<lparr>height_cm := Some z, weight_kg := Some w\<rparr>)
    \<and> bmi_block E r s0 = (None, bmi_except (s0\<lparr>height_cm := Some z, weight_kg := Some w\<rparr>))
    \<and> (\<forall>r'. isl (py_float E (height_raw r')) \<longrightarrow> bmi_block E r' s0 = (None, bmi_except s0))
    \<and> fst (evaluate E r) = None
    \<and> status_of (snd (evaluate E r)) ''BMI'' = Some ''Error''
    \<and> height_cm (snd (evaluate E r)) = None \<and> weight_kg (snd (evaluate E r)) = None
    \<and> bmi_value (snd (evaluate E r)) = None
    \<and> (\<forall>req. http_method req = ''POST'' \<and> read_form (form req) = r \<longrightarrow>
          (\<exists>pg. index E now ses req db = Inr (db, pg)))"
proof -
  note z = compute_bmi_zero_height [OF assms(2), of E w]
  have tr: "bmi_try E r s0 = (Some ZeroDivisionError, s0\<lparr>height_cm := Some z, weight_kg := Some w\<rparr>)"
    using assms(1,3) z by (simp add: bmi_try_def)
  then have blk: "bmi_block E r s0 = (None, bmi_except (s0\<lparr>height_cm := Some z, weight_kg := Some w\<rparr>))"
    by (simp add: bmi_block_def try_except_def)
  have parse: "\<forall>r'. isl (py_float E (height_raw r')) \<longrightarrow> bmi_block E r' s0 = (None, bmi_except s0)"
    by (auto simp: bmi_block_def try_except_def bmi_try_def split: sum.splits)
  have out: "bmi_outcome E r = Inl ZeroDivisionError"
    using assms(1,3) z by (simp add: bmi_outcome_def)
  have ev: "fst (evaluate E r) = None"
    by (simp add: evaluate_eq)
  have st: "status_of (snd (evaluate E r)) ''BMI'' = Some ''Error''"
    by (simp add: status_of_def entries_evaluate out)
  have nums: "height_cm (snd (evaluate E r)) = None" "weight_kg (snd (evaluate E r)) = None"
    "bmi_value (snd (evaluate E r)) = None"
    by (simp_all add: numbers_evaluate out)
  have ix: "\<forall>req. http_method req = ''POST'' \<and> read_form (form req) = r \<longrightarrow>
          (\<exists>pg. index E now ses req db = Inr (db, pg))"
    using nums(1) by (auto simp: index_post save_if_valid_none)
  from z tr blk parse ev st nums ix show ?thesis
    by (intro conjI)
qed

lemma sample_zero: "py_float sample_builtins (Some ''0'') = Inr (Num 0)"
  by (simp add: py_float_def sample_builtins_def decimal_def digit_value_def)

text \<open>
  The all-normal form with height 0: BMI is "Error" and the empty table stays empty.
\<close>

theorem zero_height_is_error_witness:
  "status_of (snd (evaluate sample_builtins (sample_raw\<lparr>height_raw := Some ''0''\<rparr>))) ''BMI''
     = Some ''Error''
   \<and> height_cm (snd (evaluate sample_builtins (sample_raw\<lparr>height_raw := Some ''0''\<rparr>))) = None
   \<and> (\<exists>pg. index sample_builtins ''2024-05-01 10:00:00'' guest
          \<lparr>http_method = ''POST'', form = sample_form(''height'' \<mapsto> ''0'')\<rparr> empty_db
        = Inr (empty_db, pg))"
proof -
  define r where "r = sample_raw\<lparr>height_raw := Some ''0''\<rparr>"
  define req where "req = \<lparr>http_method = ''POST'', form = sample_form(''height'' \<mapsto> ''0'')\<rparr>"
  define t where "t = ''2024-05-01 10:00:00''"
  have h: "py_float sample_builtins (height_raw r) = Inr (Num 0)"
    and w: "py_float sample_builtins (weight_raw r) = Inr (Num 88)"
    by (simp_all add: r_def sample_zero sample_raw_def)
  have z: "is_zero (Num 0)" by simp
  have rq: "http_method req = ''POST'' \<and> read_form (form req) = r"
    by (simp add: req_def r_def read_form_def get_or_none_def sample_form_def sample_raw_def)
  note th = zero_height_is_error [OF h z w, of initial_locals t guest empty_db]
  note t4 = th [THEN conjunct2, THEN conjunct2, THEN conjunct2, THEN conjunct2]
  have a: "status_of (snd (evaluate sample_builtins r)) ''BMI'' = Some ''Error''"
    by (rule t4 [THEN conjunct2, THEN conjunct1])
  have b: "height_cm (snd (evaluate sample_builtins r)) = None"
    by (rule t4 [THEN conjunct2, THEN conjunct2, THEN conjunct1])
  have c: "\<exists>pg. index sample_builtins t guest req empty_db = Inr (empty_db, pg)"
    by (rule t4 [THEN conjunct2, THEN conjunct2, THEN conjunct2, THEN conjunct2, THEN conjunct2,
          rule_format, OF rq])
  from a b c show ?thesis
    unfolding r_def req_def t_def by (intro conjI)
qed

section \<open>Deleting reports\<close>








end
